theory Spec2Isabelle
  imports Complex_Main "HOL-Library.Multiset"
begin

section \<open>Errors raised by the utilities and the libraries they call\<close>

datatype error = ValueError | IndexError | RuntimeError

section \<open>l2\_regularisation\<close>

text \<open>
  A module is given by the list of its parameter tensors, in the order in which
  \<^verbatim>\<open>m.parameters()\<close> yields them; a tensor is the list of its entries.
  \<^verbatim>\<open>W.norm(2)\<close> is the 2-norm of the flattened tensor.
\<close>

definition norm2 :: "real list \<Rightarrow> real" where
  "norm2 W = sqrt (sum_list (map (\<lambda>v. \<bar>v\<bar> ^ 2) W))"

text \<open>The loop of \<^verbatim>\<open>l2_regularisation\<close>, with \<^verbatim>\<open>l2_reg\<close> as its state.\<close>

fun l2_loop :: "real option \<Rightarrow> real list list \<Rightarrow> real option" where
  "l2_loop l2_reg [] = l2_reg"
| "l2_loop l2_reg (W # Ws) =
     l2_loop (case l2_reg of None \<Rightarrow> Some (norm2 W) | Some r \<Rightarrow> Some (r + norm2 W)) Ws"

definition l2_regularisation :: "real list list \<Rightarrow> real option" where
  "l2_regularisation m = l2_loop None m"

section \<open>truncated\_normal\_\<close>

text \<open>
  \<^verbatim>\<open>valid.max(-1, keepdim=True)[1]\<close>: the index of the maximum along the last
  axis; among equal maxima the first index is returned. The scan keeps the running
  maximum and its index and replaces them only by a strictly greater value.
\<close>

fun max_scan :: "'a::linorder \<Rightarrow> nat \<Rightarrow> nat \<Rightarrow> 'a list \<Rightarrow> nat" where
  "max_scan best bi i [] = bi"
| "max_scan best bi i (v # vs) =
     (if best < v then max_scan v i (Suc i) vs else max_scan best bi (Suc i) vs)"

definition argmax_last :: "'a::linorder list \<Rightarrow> nat" where
  "argmax_last vs = (case vs of [] \<Rightarrow> 0 | v # rest \<Rightarrow> max_scan v 0 1 rest)"

text \<open>
  The tensor is flattened to the list of its elements; \<open>tmp\<close> holds, for each element,
  the samples that \<^verbatim>\<open>normal_()\<close> drew along the added last axis (4 of them in the
  source). The result is the new content of the tensor. (The source's name ends in an
  underscore, which a constant's name cannot.)
\<close>

definition truncated_normal_elem :: "real list \<Rightarrow> real \<Rightarrow> real \<Rightarrow> real" where
  "truncated_normal_elem smp mean std =
     (let valid = map (\<lambda>v. v < 2 \<and> v > -2) smp;
          ind = argmax_last valid
      in (smp ! ind) * std + mean)"

definition truncated_normal :: "real list list \<Rightarrow> real \<Rightarrow> real \<Rightarrow> real list" where
  "truncated_normal tmp mean std = map (\<lambda>smp. truncated_normal_elem smp mean std) tmp"

text \<open>The reading of the specification: the last drawn value when no sample qualifies.\<close>

definition spec_truncated_pick :: "real list \<Rightarrow> real" where
  "spec_truncated_pick smp =
     (case filter (\<lambda>v. \<bar>v\<bar> < 2) smp of [] \<Rightarrow> last smp | v # _ \<Rightarrow> v)"

section \<open>random\_box\<close>

text \<open>
  \<^verbatim>\<open>label\<close> and \<^verbatim>\<open>regionprops\<close> are library calls: the model takes their result, the
  list of connected components of one mask in label order, each with its bounding box
  \<^verbatim>\<open>(min_row, min_col, max_row, max_col)\<close> and its pixel area.
\<close>

type_synonym box = "int \<times> int \<times> int \<times> int"

record region =
  bbox :: box
  area :: nat

text \<open>The slice \<^verbatim>\<open>xs[:n]\<close>; a negative \<open>n\<close> counts from the end.\<close>

definition py_take :: "int \<Rightarrow> 'a list \<Rightarrow> 'a list" where
  "py_take n xs = (if 0 \<le> n then take (nat n) xs else take (length xs - nat (- n)) xs)"

text \<open>
  \<^verbatim>\<open>sorted(regions, key=lambda x: x.area, reverse=True)\<close>: a stable sort, so components of
  equal area keep their label order.
\<close>

definition by_area_desc :: "region list \<Rightarrow> region list" where
  "by_area_desc regions = sort_key (\<lambda>r. - int (area r)) regions"

text \<open>
  The boxes of one mask before the noise loop, when the mask has a component: the
  \<^verbatim>\<open>if len(boxes) >= box_num\<close> branch and its \<^verbatim>\<open>elif\<close>.
\<close>

definition pre_noise_boxes :: "region list \<Rightarrow> int \<Rightarrow> box list" where
  "pre_noise_boxes regions box_num =
     (let boxes = map bbox regions in
      if box_num \<le> int (length boxes)
      then map bbox (py_take box_num (by_area_desc regions))
      else let num_duplicates = box_num - int (length boxes)
           in boxes @ map (\<lambda>i. boxes ! (i mod length boxes)) [0..<nat num_duplicates])"

text \<open>\<^verbatim>\<open>int(x)\<close> of a float truncates towards zero.\<close>

definition py_int :: "real \<Rightarrow> int" where
  "py_int r = (if 0 \<le> r then \<lfloor>r\<rfloor> else \<lceil>r\<rceil>)"

text \<open>
  \<^verbatim>\<open>np.random.randint(low, high)\<close> returns an integer of \<open>[low, high)\<close>. The generator's
  output is the parameter \<open>raw\<close>; every value of the range arises from some \<open>raw\<close>.
\<close>

definition randint :: "int \<Rightarrow> int \<Rightarrow> nat \<Rightarrow> int" where
  "randint low high raw = low + int raw mod (high - low)"

definition noise_box :: "real \<Rightarrow> int \<Rightarrow> nat \<times> nat \<Rightarrow> box \<Rightarrow> box" where
  "noise_box std max_pixel raw b =
     (case b of (y0, x0, y1, x1) \<Rightarrow>
        let width = \<bar>x1 - x0\<bar>; height = \<bar>y1 - y0\<bar>;
            noise_std = real_of_int (min width height) * std;
            max_noise = max 1 (min max_pixel (py_int (noise_std * 5)));
            noise_x = randint (- max_noise) max_noise (fst raw);
            noise_y = randint (- max_noise) max_noise (snd raw)
        in (x0 + noise_x, y0 + noise_y, x1 + noise_x, y1 + noise_y))"

text \<open>
  One iteration of the loop over the batch: \<open>rnd k\<close> is the generator's output for the
  two draws of the \<open>k\<close>-th box.
\<close>

definition random_box_item ::
    "region list \<Rightarrow> int \<Rightarrow> real \<Rightarrow> int \<Rightarrow> (nat \<Rightarrow> nat \<times> nat) \<Rightarrow> box list" where
  "random_box_item regions box_num std max_pixel rnd =
     (let boxes = map bbox regions in
      if length boxes = 0 then replicate (nat box_num) (0, 0, 0, 0)
      else map (\<lambda>(k, b). noise_box std max_pixel (rnd k) b)
             (enumerate 0 (pre_noise_boxes regions box_num)))"

text \<open>
  The whole function, on the components of each mask of the batch.
  \<^verbatim>\<open>torch.as_tensor\<close> raises ValueError on rows of different lengths; the conversion to
  floating point keeps the integer coordinates.
\<close>

definition random_box ::
    "region list list \<Rightarrow> int \<Rightarrow> real \<Rightarrow> int \<Rightarrow> (nat \<Rightarrow> nat \<Rightarrow> nat \<times> nat) \<Rightarrow> error + box list list" where
  "random_box batch box_num std max_pixel rnd =
     (let noise_boxes = map (\<lambda>(i, regions). random_box_item regions box_num std max_pixel (rnd i))
                          (enumerate 0 batch)
      in if \<forall>row \<in> set noise_boxes. length row = length (hd noise_boxes)
         then Inr noise_boxes else Inl ValueError)"

text \<open>
  The reading of the specification: sorted by area descending in both branches,
  truncated or cyclically repeated to \<open>box_num\<close> boxes.
\<close>

definition spec_pre_noise_boxes :: "region list \<Rightarrow> nat \<Rightarrow> box list" where
  "spec_pre_noise_boxes regions box_num =
     (let sorted_boxes = map bbox (by_area_desc regions)
      in map (\<lambda>k. sorted_boxes ! (k mod length sorted_boxes)) [0..<box_num])"

section \<open>l2\_regularisation: results\<close>

lemma l2_loop_Some:
  "l2_loop (Some r) Ws = Some (r + sum_list (map norm2 Ws))"
  by (induction Ws arbitrary: r) (simp_all add: add.assoc)

text \<open>
  C10: \<^verbatim>\<open>l2_regularisation\<close> returns None for a module without parameters, and the sum
  of the 2-norms of all parameters for a module with at least one parameter.
\<close>

theorem l2_regularisation_result:
  "l2_regularisation [] = None \<and>
   (m \<noteq> [] \<longrightarrow> l2_regularisation m = Some (sum_list (map norm2 m)))"
  by (cases m) (simp_all add: l2_regularisation_def l2_loop_Some)

theorem l2_regularisation_result_witness:
  "[[3, 4], [0, 1 :: real]] \<noteq> [] \<and>
   l2_regularisation [[3, 4], [0, 1]] = Some (norm2 [3, 4] + norm2 [0, 1]) \<and>
   l2_regularisation [[3, 4], [0, 1]] \<noteq> None"
  using l2_regularisation_result [of "[[3, 4], [0, 1]]"] by simp

section \<open>truncated\_normal\_: results\<close>

lemma max_scan_True: "max_scan True bi i vs = bi"
  by (induction vs arbitrary: i) simp_all

lemma max_scan_False:
  "length pre = i \<Longrightarrow> bi < i \<Longrightarrow>
   (pre @ vs) ! max_scan False bi i (map P vs) =
     (case filter P vs of [] \<Rightarrow> (pre @ vs) ! bi | v # _ \<Rightarrow> v)"
proof (induction vs arbitrary: pre i)
  case Nil
  then show ?case by simp
next
  case (Cons v vs)
  show ?case
  proof (cases "P v")
    case True
    with Cons.prems show ?thesis by (simp add: max_scan_True nth_append)
  next
    case False
    have "((pre @ [v]) @ vs) ! max_scan False bi (Suc i) (map P vs) =
        (case filter P vs of [] \<Rightarrow> ((pre @ [v]) @ vs) ! bi | w # _ \<Rightarrow> w)"
      using Cons.prems by (intro Cons.IH) simp_all
    with False show ?thesis by (simp split: list.splits)
  qed
qed

lemma argmax_last_pick:
  "smp \<noteq> [] \<Longrightarrow>
   smp ! argmax_last (map P smp) = (case filter P smp of [] \<Rightarrow> smp ! 0 | v # _ \<Rightarrow> v)"
proof (cases smp)
  case Nil
  assume "smp \<noteq> []"
  with Nil show ?thesis by simp
next
  case (Cons v rest)
  show ?thesis
  proof (cases "P v")
    case True
    with Cons show ?thesis by (simp add: argmax_last_def max_scan_True)
  next
    case False
    have "([v] @ rest) ! max_scan False 0 1 (map P rest) =
        (case filter P rest of [] \<Rightarrow> ([v] @ rest) ! 0 | w # _ \<Rightarrow> w)"
      by (rule max_scan_False) simp_all
    with False show ?thesis unfolding Cons by (simp add: argmax_last_def split: list.splits)
  qed
qed

text \<open>
  C8 (amended): for every target element with its 4 samples, \<^verbatim>\<open>truncated_normal_\<close>
  keeps the first sample whose magnitude is below 2; if none of the 4 qualifies, the
  sample at index 0 (the first drawn value) is kept; the kept value is multiplied by
  the requested std and shifted by the requested mean.
\<close>

theorem truncated_normal_first_valid:
  assumes "\<forall>smp \<in> set tmp. length smp = 4"
  shows "truncated_normal tmp mean std =
     map (\<lambda>smp. (case filter (\<lambda>v. \<bar>v\<bar> < 2) smp of [] \<Rightarrow> smp ! 0 | v # _ \<Rightarrow> v) * std + mean) tmp"
proof -
  have "truncated_normal_elem smp mean std =
      (case filter (\<lambda>v. \<bar>v\<bar> < 2) smp of [] \<Rightarrow> smp ! 0 | v # _ \<Rightarrow> v) * std + mean"
    if "smp \<in> set tmp" for smp
  proof -
    from that assms have "smp \<noteq> []" by auto
    moreover have "(\<lambda>v::real. v < 2 \<and> v > -2) = (\<lambda>v. \<bar>v\<bar> < 2)" by auto
    ultimately show ?thesis
      using argmax_last_pick [of smp "\<lambda>v. \<bar>v\<bar> < 2"]
      by (simp add: truncated_normal_elem_def)
  qed
  then show ?thesis by (simp add: truncated_normal_def)
qed

theorem truncated_normal_first_valid_witness:
  "truncated_normal [[3, 1, 5, 0], [3, 4, 5, 6], [-2, 2, -1, 1]] 10 2 = [12, 16, 8]"
  using truncated_normal_first_valid [of "[[3, 1, 5, 0], [3, 4, 5, 6], [-2, 2, -1, 1]]" 10 2]
  by simp

text \<open>
  C8 as stated (the last drawn value when none qualifies) fails on the samples
  3, 4, 5, 6: the tensor receives 3, the first of them, not 6.
\<close>

theorem truncated_normal_last_counterexample:
  "\<not> (\<forall>tmp mean std. (\<forall>smp \<in> set tmp. length smp = 4) \<longrightarrow>
      truncated_normal tmp mean std = map (\<lambda>smp. spec_truncated_pick smp * std + mean) tmp)"
proof
  assume "\<forall>tmp mean std. (\<forall>smp \<in> set tmp. length smp = 4) \<longrightarrow>
      truncated_normal tmp mean std = map (\<lambda>smp. spec_truncated_pick smp * std + mean) tmp"
  then have "(\<forall>smp \<in> set [[3, 4, 5, 6 :: real]]. length smp = 4) \<longrightarrow>
      truncated_normal [[3, 4, 5, 6]] 0 1 = map (\<lambda>smp. spec_truncated_pick smp * 1 + 0) [[3, 4, 5, 6]]"
    by blast
  then have "truncated_normal [[3, 4, 5, 6]] 0 1 = map (\<lambda>smp. spec_truncated_pick smp * 1 + 0) [[3, 4, 5, 6]]"
    by simp
  then show False
    by (simp add: truncated_normal_def truncated_normal_elem_def argmax_last_def spec_truncated_pick_def)
qed

section \<open>random\_box: results\<close>

lemma by_area_desc_mset: "mset (by_area_desc regions) = mset regions"
  by (simp add: by_area_desc_def)

lemma by_area_desc_sorted:
  "sorted_wrt (\<lambda>a b. area b \<le> area a) (by_area_desc regions)"
proof -
  have "sorted (map (\<lambda>r. - int (area r)) (by_area_desc regions))"
    by (simp add: by_area_desc_def)
  then show ?thesis by (simp add: sorted_map)
qed

lemma cyclic_padding:
  assumes "boxes \<noteq> []" and "length boxes \<le> n"
  shows "boxes @ map (\<lambda>i. boxes ! (i mod length boxes)) [0..<n - length boxes] =
         map (\<lambda>k. boxes ! (k mod length boxes)) [0..<n]"
proof (rule nth_equalityI)
  show "length (boxes @ map (\<lambda>i. boxes ! (i mod length boxes)) [0..<n - length boxes]) =
        length (map (\<lambda>k. boxes ! (k mod length boxes)) [0..<n])"
    using assms by simp
next
  fix i
  assume "i < length (boxes @ map (\<lambda>i. boxes ! (i mod length boxes)) [0..<n - length boxes])"
  with assms have i: "i < n" by simp
  show "(boxes @ map (\<lambda>i. boxes ! (i mod length boxes)) [0..<n - length boxes]) ! i =
        map (\<lambda>k. boxes ! (k mod length boxes)) [0..<n] ! i"
  proof (cases "i < length boxes")
    case True
    with i show ?thesis by (simp add: nth_append)
  next
    case False
    then have "(i - length boxes) mod length boxes = i mod length boxes"
      by (simp add: le_mod_geq)
    moreover from False i have "i - length boxes < n - length boxes" by simp
    ultimately show ?thesis using False i by (simp add: nth_append)
  qed
qed

text \<open>
  C9 (amended): for every mask of the batch and \<open>box_num \<ge> 0\<close>: with no connected
  component the output is \<open>box_num\<close> all-zero boxes; with at least \<open>box_num\<close> components
  the pre-noise boxes are the bounding boxes of the \<open>box_num\<close> first components in the
  order of descending area; with fewer components (and at least one) the pre-noise
  boxes are the bounding boxes in label order (not sorted by area), cyclically
  repeated to \<open>box_num\<close> boxes. The output applies the noise to these boxes.
\<close>

theorem random_box_pre_noise:
  assumes "0 \<le> box_num"
  shows "(regions = [] \<longrightarrow>
            random_box_item regions box_num std max_pixel rnd = replicate (nat box_num) (0, 0, 0, 0)) \<and>
         (regions \<noteq> [] \<longrightarrow>
            random_box_item regions box_num std max_pixel rnd =
              map (\<lambda>(k, b). noise_box std max_pixel (rnd k) b)
                (enumerate 0 (pre_noise_boxes regions box_num))) \<and>
         (regions \<noteq> [] \<and> box_num \<le> int (length regions) \<longrightarrow>
            pre_noise_boxes regions box_num = map bbox (take (nat box_num) (by_area_desc regions)) \<and>
            length (pre_noise_boxes regions box_num) = nat box_num \<and>
            mset (by_area_desc regions) = mset regions \<and>
            sorted_wrt (\<lambda>a b. area b \<le> area a) (by_area_desc regions)) \<and>
         (regions \<noteq> [] \<and> int (length regions) < box_num \<longrightarrow>
            pre_noise_boxes regions box_num =
              map (\<lambda>k. bbox (regions ! (k mod length regions))) [0..<nat box_num])"
proof (intro conjI impI)
  show "random_box_item regions box_num std max_pixel rnd = replicate (nat box_num) (0, 0, 0, 0)"
    if "regions = []"
    using that by (simp add: random_box_item_def)
next
  show "random_box_item regions box_num std max_pixel rnd =
      map (\<lambda>(k, b). noise_box std max_pixel (rnd k) b) (enumerate 0 (pre_noise_boxes regions box_num))"
    if "regions \<noteq> []"
    using that by (simp add: random_box_item_def)
next
  assume h: "regions \<noteq> [] \<and> box_num \<le> int (length regions)"
  with assms show eq: "pre_noise_boxes regions box_num = map bbox (take (nat box_num) (by_area_desc regions))"
    by (simp add: pre_noise_boxes_def py_take_def)
  have "length (by_area_desc regions) = length regions"
    by (simp add: by_area_desc_def)
  moreover from h assms have "nat box_num \<le> length regions" by linarith
  ultimately show "length (pre_noise_boxes regions box_num) = nat box_num"
    unfolding eq by simp
  show "mset (by_area_desc regions) = mset regions" by (rule by_area_desc_mset)
  show "sorted_wrt (\<lambda>a b. area b \<le> area a) (by_area_desc regions)" by (rule by_area_desc_sorted)
next
  assume h: "regions \<noteq> [] \<and> int (length regions) < box_num"
  then have ne: "map bbox regions \<noteq> []" by simp
  from h have "length regions \<le> nat box_num" by linarith
  then have le: "length (map bbox regions) \<le> nat box_num" by simp
  have "nat (box_num - int (length regions)) = nat box_num - length regions"
    using h by simp
  then have "pre_noise_boxes regions box_num =
      map bbox regions @ map (\<lambda>i. map bbox regions ! (i mod length (map bbox regions)))
        [0..<nat box_num - length (map bbox regions)]"
    using h by (simp add: pre_noise_boxes_def)
  also have "\<dots> = map (\<lambda>k. map bbox regions ! (k mod length (map bbox regions))) [0..<nat box_num]"
    by (rule cyclic_padding [OF ne le])
  also have "\<dots> = map (\<lambda>k. bbox (regions ! (k mod length regions))) [0..<nat box_num]"
    using h by simp
  finally show "pre_noise_boxes regions box_num =
      map (\<lambda>k. bbox (regions ! (k mod length regions))) [0..<nat box_num]" .
qed


theorem random_box_pre_noise_witness:
  "random_box_item [] 2 (1 / 10) 5 (\<lambda>k. (0, 0)) = [(0, 0, 0, 0), (0, 0, 0, 0)] \<and>
   pre_noise_boxes [\<lparr>bbox = (0, 0, 1, 1), area = 1\<rparr>, \<lparr>bbox = (2, 2, 4, 4), area = 4\<rparr>] 1 =
     [(2, 2, 4, 4)] \<and>
   pre_noise_boxes [\<lparr>bbox = (0, 0, 1, 1), area = 1\<rparr>, \<lparr>bbox = (2, 2, 4, 4), area = 4\<rparr>] 3 =
     [(0, 0, 1, 1), (2, 2, 4, 4), (0, 0, 1, 1)]"
  using random_box_pre_noise [of 2 "[]" "1 / 10" 5 "\<lambda>k. (0, 0)"]
    random_box_pre_noise [of 1 "[\<lparr>bbox = (0, 0, 1, 1), area = 1\<rparr>, \<lparr>bbox = (2, 2, 4, 4), area = 4\<rparr>]"]
    random_box_pre_noise [of 3 "[\<lparr>bbox = (0, 0, 1, 1), area = 1\<rparr>, \<lparr>bbox = (2, 2, 4, 4), area = 4\<rparr>]"]
  by (simp add: by_area_desc_def eval_nat_numeral upt_rec)

text \<open>
  C9 as stated (sorted by area descending also when fewer components than \<open>box_num\<close>
  exist) fails on two components of areas 1 and 4 in label order with \<open>box_num = 3\<close>:
  the code keeps the label order, small box first.
\<close>

theorem random_box_sorted_counterexample:
  "\<not> (\<forall>regions box_num. regions \<noteq> [] \<and> 0 \<le> box_num \<longrightarrow>
        pre_noise_boxes regions box_num = spec_pre_noise_boxes regions (nat box_num))"
proof
  assume "\<forall>regions box_num. regions \<noteq> [] \<and> 0 \<le> box_num \<longrightarrow>
        pre_noise_boxes regions box_num = spec_pre_noise_boxes regions (nat box_num)"
  then have "[\<lparr>bbox = (0, 0, 1, 1), area = 1\<rparr>, \<lparr>bbox = (2, 2, 4, 4), area = 4\<rparr>] \<noteq> [] \<and> (0::int) \<le> 3 \<longrightarrow>
      pre_noise_boxes [\<lparr>bbox = (0, 0, 1, 1), area = 1\<rparr>, \<lparr>bbox = (2, 2, 4, 4), area = 4\<rparr>] 3 =
      spec_pre_noise_boxes [\<lparr>bbox = (0, 0, 1, 1), area = 1\<rparr>, \<lparr>bbox = (2, 2, 4, 4), area = 4\<rparr>] (nat 3)"
    by blast
  then show False
    by (simp add: pre_noise_boxes_def spec_pre_noise_boxes_def by_area_desc_def
        eval_nat_numeral upt_rec)
qed

end
